theory Spec2Isabelle
  imports Main "HOL-Library.Word"
begin

section \<open>Events (event.c)\<close>

text \<open>
  Pointers are addresses; a C pointer that may be \<^verbatim>\<open>NULL\<close> is an \<open>addr option\<close>,
  with \<open>None\<close> for \<^verbatim>\<open>NULL\<close>. The payload \<^verbatim>\<open>void * data\<close>, the issuer and the
  two function pointers \<^verbatim>\<open>data_ref\<close> and \<^verbatim>\<open>data_free\<close> are such pointers.
  The enumeration \<^verbatim>\<open>event_type_t\<close> is declared in event.h, which is not part of
  the sources at hand: it is the type parameter \<open>'ty\<close>.
\<close>

type_synonym addr = nat

text \<open>
  The struct \<^verbatim>\<open>event_t\<close>, with the four members event.c assigns. There is no
  member for \<^verbatim>\<open>data_ref\<close>: \<^verbatim>\<open>event_create\<close> never stores it.
\<close>

record 'ty event_t =
  type :: 'ty
  data :: "addr option"
  issuer :: "addr option"
  data_free :: "addr option"

text \<open>
  What a hook does to the payload is outside event.c. The model records each call made
  through a function pointer, in order: \<open>Call f d\<close> is the call \<^verbatim>\<open>f(d)\<close>.
\<close>

datatype hook_call = Call (callee: addr) (arg: addr)

text \<open>
  The state event.c works on: the envelopes that \<^verbatim>\<open>malloc\<close> handed out and that
  were not given back to \<^verbatim>\<open>free\<close> yet, and the hook calls made so far.
\<close>

record 'ty state =
  heap :: "addr \<rightharpoonup> 'ty event_t"
  calls :: "hook_call list"

datatype error = Invalid_Pointer

text \<open>
  \<^verbatim>\<open>if (data && data_ref) data_ref(data);\<close> and its two siblings: the call is made
  when both pointers are not \<^verbatim>\<open>NULL\<close>.
\<close>

fun call_hook :: "addr option \<Rightarrow> addr option \<Rightarrow> hook_call list \<Rightarrow> hook_call list" where
  "call_hook (Some d) (Some f) cs = cs @ [Call f d]"
| "call_hook d f cs = cs"

text \<open>
  \<^verbatim>\<open>event_create\<close>. The first argument is what \<^verbatim>\<open>malloc(sizeof(event_t))\<close>
  answers: \<open>Some p\<close> for a block at \<open>p\<close>, \<open>None\<close> for \<^verbatim>\<open>NULL\<close>. The function
  returns the pointer \<^verbatim>\<open>event\<close> and the state it leaves. The members are
  assigned first and the hook is called last, as in the source.
\<close>

definition event_create ::
  "addr option \<Rightarrow> 'ty \<Rightarrow> addr option \<Rightarrow> addr option \<Rightarrow> addr option \<Rightarrow> addr option \<Rightarrow>
   'ty state \<Rightarrow> addr option \<times> 'ty state" where
  "event_create malloc_result ty dat iss data_ref dfree s =
     (case malloc_result of
        Some event \<Rightarrow>
          (Some event,
           s\<lparr>heap := (heap s)(event \<mapsto>
                \<lparr>type = ty, data = dat, issuer = iss, data_free = dfree\<rparr>),
             calls := call_hook dat data_ref (calls s)\<rparr>)
      | None \<Rightarrow>
          (None, s\<lparr>calls := call_hook dat dfree (calls s)\<rparr>))"

text \<open>
  \<^verbatim>\<open>event_free\<close>. A \<^verbatim>\<open>NULL\<close> argument does nothing. Any other pointer is
  dereferenced: when no envelope lives there (it was never allocated, or it was freed
  already) the C program has no defined behaviour, which the model reports as
  \<open>Inl Invalid_Pointer\<close>.
\<close>

definition event_free :: "addr option \<Rightarrow> 'ty state \<Rightarrow> error + 'ty state" where
  "event_free event_ptr s =
     (case event_ptr of
        None \<Rightarrow> Inr s
      | Some event \<Rightarrow>
          (case heap s event of
             None \<Rightarrow> Inl Invalid_Pointer
           | Some ev \<Rightarrow>
               Inr (s\<lparr>calls := call_hook (data ev) (data_free ev) (calls s),
                      heap := (heap s)(event := None)\<rparr>)))"

text \<open>The whole life of one envelope: \<^verbatim>\<open>event_free(event_create(...))\<close>.\<close>

definition event_lifecycle ::
  "addr option \<Rightarrow> 'ty \<Rightarrow> addr option \<Rightarrow> addr option \<Rightarrow> addr option \<Rightarrow> addr option \<Rightarrow>
   'ty state \<Rightarrow> error + 'ty state" where
  "event_lifecycle malloc_result ty dat iss data_ref dfree s =
     (case event_create malloc_result ty dat iss data_ref dfree s of
        (event, s') \<Rightarrow> event_free event s')"

section \<open>Layers (layer.h)\<close>

text \<open>
  layer.h declares the struct \<^verbatim>\<open>layer_t\<close> and the prototypes of its functions; the
  bodies (layer.c) and the headers buffer.h, field.h and protocol.h are not part of the
  sources at hand. The record below is the struct of layer.h; every function of this
  section is modelled from the written specification of the component.

  The packet's bytes are one buffer, owned by the probe; a layer is a view on it. The
  pointer \<^verbatim>\<open>segment\<close> is the offset of the view's first byte in that buffer, so that
  a layer is an (offset, length) descriptor on the owner's bytes. The sizes are
  \<^verbatim>\<open>size_t\<close> in C and natural numbers here: the specification's comparisons are
  those of plain arithmetic.
\<close>

type_synonym byte = "8 word"

text \<open>
  Modelled from the spec: \<^verbatim>\<open>buffer_t\<close> (buffer.h is missing), a resizable byte
  container. Its data and its size are the list and its length.
\<close>

type_synonym buffer_t = "byte list"

text \<open>
  Modelled from the spec: \<^verbatim>\<open>protocol_t\<close> (protocol.h is missing). A protocol
  descriptor supplies a header size, the resolution of a field's name to its byte range
  (the offset in the segment and the width) and the byte order of its fields.
\<close>

datatype byte_order = Big_Endian | Little_Endian

record protocol_t =
  protocol_name :: string
  protocol_header_size :: nat
  protocol_fields :: "(string \<times> nat \<times> nat) list"
  protocol_byte_order :: byte_order

text \<open>
  Modelled from the spec: \<^verbatim>\<open>field_t\<close> (field.h is missing), a field's name and
  its value, an unsigned integer.
\<close>

record field_t =
  key :: string
  val :: nat

text \<open>The struct \<^verbatim>\<open>layer_t\<close> of layer.h, member by member.\<close>

record layer_t =
  protocol :: "protocol_t option"
  segment :: nat
  mask :: "nat option"
  header_size :: nat
  segment_size :: nat

subsection \<open>The buffer owner\<close>

text \<open>
  Modelled from the spec: the growth the buffer's owner supports (buffer.h is missing).
  \<open>buffer_resize n\<close> makes room for \<open>n\<close> bytes, the new ones zero; a buffer that is
  long enough stays as it is.
\<close>

definition buffer_resize :: "nat \<Rightarrow> buffer_t \<Rightarrow> buffer_t" where
  "buffer_resize n buf = buf @ replicate (n - length buf) 0"

text \<open>
  Modelled from the spec: a write of the bytes \<open>bs\<close> at offset \<open>pos\<close> of the owner's
  buffer (buffer.h is missing). The buffer grows first if the bytes do not fit.
\<close>

definition buffer_write :: "nat \<Rightarrow> byte list \<Rightarrow> buffer_t \<Rightarrow> buffer_t" where
  "buffer_write pos bs buf =
     (let b = buffer_resize (pos + length bs) buf
      in take pos b @ bs @ drop (pos + length bs) b)"

text \<open>
  Modelled from the spec: a read of \<open>n\<close> bytes at offset \<open>pos\<close> (buffer.h is
  missing). Bytes that the buffer does not hold cannot be read.
\<close>

definition buffer_read :: "nat \<Rightarrow> nat \<Rightarrow> buffer_t \<Rightarrow> byte list option" where
  "buffer_read pos n buf =
     (if pos + n \<le> length buf then Some (take n (drop pos buf)) else None)"

subsection \<open>Field values as bytes\<close>

text \<open>
  Modelled from the spec: the packing rule of a protocol (protocol.h and field.h are
  missing). A value is written on the field's width in the protocol's byte order; the
  bits that do not fit the width are lost.
\<close>

fun encode_le :: "nat \<Rightarrow> nat \<Rightarrow> byte list" where
  "encode_le 0 v = []"
| "encode_le (Suc w) v = of_nat (v mod 256) # encode_le w (v div 256)"

fun decode_le :: "byte list \<Rightarrow> nat" where
  "decode_le [] = 0"
| "decode_le (b # bs) = unat b + 256 * decode_le bs"

fun field_encode :: "byte_order \<Rightarrow> nat \<Rightarrow> nat \<Rightarrow> byte list" where
  "field_encode Little_Endian w v = encode_le w v"
| "field_encode Big_Endian w v = rev (encode_le w v)"

fun field_decode :: "byte_order \<Rightarrow> byte list \<Rightarrow> nat" where
  "field_decode Little_Endian bs = decode_le bs"
| "field_decode Big_Endian bs = decode_le (rev bs)"

text \<open>
  Modelled from the spec: the field accessor (protocol.h is missing). Given a protocol
  descriptor and a field's name it answers the offset and the width of the field in a
  segment, or nothing for a name the protocol does not know.
\<close>

definition protocol_get_field :: "protocol_t \<Rightarrow> string \<Rightarrow> (nat \<times> nat) option" where
  "protocol_get_field pr name = map_of (protocol_fields pr) name"

subsection \<open>Operations on a layer\<close>

text \<open>
  Modelled from the spec: \<^verbatim>\<open>layer_create\<close> (layer.c is missing). A layer with no
  protocol, no segment and zero sizes: the empty view at offset 0.
\<close>

definition layer_create :: layer_t where
  "layer_create =
     \<lparr>protocol = None, segment = 0, mask = None, header_size = 0, segment_size = 0\<rparr>"

text \<open>
  Modelled from the spec: the accessors (layer.c is missing). The setters store what
  they are given and validate nothing.
\<close>

definition layer_set_protocol :: "layer_t \<Rightarrow> protocol_t option \<Rightarrow> layer_t" where
  "layer_set_protocol layer pr = layer\<lparr>protocol := pr\<rparr>"

definition layer_get_segment_size :: "layer_t \<Rightarrow> nat" where
  "layer_get_segment_size layer = segment_size layer"

definition layer_set_segment_size :: "layer_t \<Rightarrow> nat \<Rightarrow> layer_t" where
  "layer_set_segment_size layer n = layer\<lparr>segment_size := n\<rparr>"

definition layer_get_header_size :: "layer_t \<Rightarrow> nat" where
  "layer_get_header_size layer = header_size layer"

definition layer_set_header_size :: "layer_t \<Rightarrow> nat \<Rightarrow> layer_t" where
  "layer_set_header_size layer n = layer\<lparr>header_size := n\<rparr>"

definition layer_get_segment :: "layer_t \<Rightarrow> nat" where
  "layer_get_segment layer = segment layer"

definition layer_set_segment :: "layer_t \<Rightarrow> nat \<Rightarrow> layer_t" where
  "layer_set_segment layer seg = layer\<lparr>segment := seg\<rparr>"

text \<open>
  Modelled from the spec: \<^verbatim>\<open>layer_set_field\<close> (layer.c is missing). The byte range
  of the field is found through the layer's protocol, and the value is written there on
  the field's width and in the protocol's byte order. The call fails, and changes
  nothing, when the layer has no protocol, when the protocol does not know the field, or
  when the range is not inside the first \<open>segment_size\<close> bytes of the segment. The
  result is the boolean of the C function with the buffer and the layer it leaves.
\<close>

definition layer_set_field ::
  "buffer_t \<Rightarrow> layer_t \<Rightarrow> field_t \<Rightarrow> bool \<times> buffer_t \<times> layer_t" where
  "layer_set_field buf layer field =
     (case protocol layer of
        None \<Rightarrow> (False, buf, layer)
      | Some pr \<Rightarrow>
          (case protocol_get_field pr (key field) of
             None \<Rightarrow> (False, buf, layer)
           | Some (off, w) \<Rightarrow>
               if off + w \<le> segment_size layer
               then (True,
                     buffer_write (segment layer + off)
                       (field_encode (protocol_byte_order pr) w (val field)) buf,
                     layer)
               else (False, buf, layer)))"

text \<open>
  Modelled from the spec: \<^verbatim>\<open>layer_create_field\<close> (layer.c is missing). The bytes
  of the named field are read out of the segment and decoded; the answer is absent when
  the layer has no protocol or the name is unknown. The specification does not say what
  a range beyond the buffer's end reads: the model answers absent there too.
\<close>

definition layer_create_field :: "buffer_t \<Rightarrow> layer_t \<Rightarrow> string \<Rightarrow> field_t option" where
  "layer_create_field buf layer name =
     (case protocol layer of
        None \<Rightarrow> None
      | Some pr \<Rightarrow>
          (case protocol_get_field pr name of
             None \<Rightarrow> None
           | Some (off, w) \<Rightarrow>
               (case buffer_read (segment layer + off) w buf of
                  None \<Rightarrow> None
                | Some bs \<Rightarrow>
                    Some \<lparr>key = name, val = field_decode (protocol_byte_order pr) bs\<rparr>)))"

text \<open>
  What a layer views: the \<open>segment_size\<close> bytes of the buffer from \<open>segment\<close> on,
  when the buffer holds them.
\<close>

definition layer_content :: "buffer_t \<Rightarrow> layer_t \<Rightarrow> byte list option" where
  "layer_content buf layer = buffer_read (segment layer) (segment_size layer) buf"

text \<open>
  The payload region of a layer starts after its header; in the payload layer, whose
  header size is 0, it is the whole segment. \<open>layer_payload\<close> is the content of the
  region, when the buffer holds it.
\<close>

definition layer_payload :: "buffer_t \<Rightarrow> layer_t \<Rightarrow> byte list option" where
  "layer_payload buf layer =
     buffer_read (segment layer + header_size layer)
       (segment_size layer - header_size layer) buf"

text \<open>
  Modelled from the spec: \<^verbatim>\<open>layer_write_payload\<close> (layer.c is missing). A layer
  does not point to the layers nested in it, so the model is given them: \<open>nested\<close>
  lists the deeper layers of the packet, and is empty for the innermost one. With a
  nested layer the call fails and changes nothing. Otherwise the payload's bytes are
  copied at \<open>offset\<close> from the start of the payload region; the buffer grows first if
  they do not fit, and the segment then covers them.
\<close>

definition layer_write_payload ::
  "layer_t list \<Rightarrow> buffer_t \<Rightarrow> layer_t \<Rightarrow> buffer_t \<Rightarrow> nat \<Rightarrow> bool \<times> buffer_t \<times> layer_t" where
  "layer_write_payload nested buf layer payload offset =
     (if nested \<noteq> [] then (False, buf, layer)
      else
        (True,
         buffer_write (segment layer + header_size layer + offset) payload buf,
         layer\<lparr>segment_size :=
           max (segment_size layer) (header_size layer + offset + length payload)\<rparr>))"

text \<open>
  Modelled from the spec: \<^verbatim>\<open>layer_set_payload\<close> (layer.c is missing). On a layer
  with a protocol the call fails and changes nothing. On the payload layer the content
  becomes the payload's bytes: they are written at the start of the payload region, and
  the segment ends where they end. layer.h lets the payload be \<^verbatim>\<open>NULL\<close>; the
  specification does not say what the call does then, and the model takes a payload that
  is present.
\<close>

definition layer_set_payload ::
  "buffer_t \<Rightarrow> layer_t \<Rightarrow> buffer_t \<Rightarrow> bool \<times> buffer_t \<times> layer_t" where
  "layer_set_payload buf layer payload =
     (case protocol layer of
        Some pr \<Rightarrow> (False, buf, layer)
      | None \<Rightarrow>
          (True,
           buffer_write (segment layer + header_size layer) payload buf,
           layer\<lparr>segment_size := header_size layer + length payload\<rparr>))"

text \<open>The invariant of the data model: the header is a part of the segment.\<close>

definition layer_inv :: "layer_t \<Rightarrow> bool" where
  "layer_inv layer \<longleftrightarrow> header_size layer \<le> segment_size layer"

section \<open>Properties of events\<close>

text \<open>
  \<^verbatim>\<open>event_free\<close> of a live envelope makes the call its stored members ask for and
  releases the envelope; creating or freeing another envelope leaves this one as it is.
\<close>

lemma event_free_stored:
  "heap s p = Some ev \<Longrightarrow>
   event_free (Some p) s =
     Inr (s\<lparr>calls := call_hook (data ev) (data_free ev) (calls s), heap := (heap s)(p := None)\<rparr>)"
  by (simp add: event_free_def)

lemma event_create_other:
  "q \<noteq> p \<Longrightarrow> heap (snd (event_create (Some q) ty dat iss data_ref dfree s)) p = heap s p"
  by (simp add: event_create_def)

lemma event_free_other:
  "q \<noteq> p \<Longrightarrow> event_free (Some q) s = Inr s' \<Longrightarrow> heap s' p = heap s p"
  by (auto simp: event_free_def split: option.splits)

text \<open>
  Claim C1. When the allocation of the envelope fails, \<^verbatim>\<open>event_create\<close> with a
  payload and a release hook calls the release hook on the payload, once, and makes no
  other call; it returns \<^verbatim>\<open>NULL\<close> and stores no envelope. The retain hook plays no
  part on this path: the outcome is the same as with no retain hook at all.
\<close>

theorem event_create_alloc_failure:
  "event_create None ty (Some d) iss data_ref (Some f) s
     = (None, s\<lparr>calls := calls s @ [Call f d]\<rparr>)
   \<and> fst (event_create None ty dat iss data_ref dfree s) = None
   \<and> heap (snd (event_create None ty dat iss data_ref dfree s)) = heap s
   \<and> event_create None ty dat iss data_ref dfree s = event_create None ty dat iss None dfree s"
  by (simp add: event_create_def)

text \<open>
  Claim C2. An envelope created with a payload and both hooks, and then freed: after
  \<^verbatim>\<open>event_create\<close> the only call made is the retain hook's, so the release hook
  has not run before \<^verbatim>\<open>event_free\<close> is entered; after \<^verbatim>\<open>event_free\<close> the calls
  made are the retain hook's followed by the release hook's, one each, and the envelope
  is gone. The same holds when the envelope is freed later: in any state where it is
  still stored as created, \<^verbatim>\<open>event_free\<close> makes the release hook's call, once.
\<close>

theorem event_lifecycle_retain_then_release:
  "\<exists>s1 s2.
     event_create (Some p) ty (Some d) iss (Some r) (Some f) s = (Some p, s1)
     \<and> calls s1 = calls s @ [Call r d]
     \<and> event_lifecycle (Some p) ty (Some d) iss (Some r) (Some f) s = Inr s2
     \<and> event_free (Some p) s1 = Inr s2
     \<and> calls s2 = calls s @ [Call r d, Call f d]
     \<and> heap s2 p = None
     \<and> (\<forall>s'. heap s' p = heap s1 p \<longrightarrow>
           (\<exists>s2'. event_free (Some p) s' = Inr s2'
              \<and> calls s2' = calls s' @ [Call f d] \<and> heap s2' p = None))"
  by (simp add: event_create_def event_free_def event_lifecycle_def)

text \<open>
  The theorem at a concrete input: the envelope is freed after another envelope was
  created and other calls were made.
\<close>

theorem event_lifecycle_retain_then_release_witness:
  "event_create (Some 7) (1::nat) (Some 3) (Some 2) (Some 10) (Some 11)
      \<lparr>heap = Map.empty, calls = []\<rparr>
    = (Some 7,
       \<lparr>heap = [7 \<mapsto> \<lparr>type = 1, data = Some 3, issuer = Some 2, data_free = Some 11\<rparr>],
         calls = [Call 10 3]\<rparr>)
   \<and> (\<exists>s2. event_free (Some 7)
        \<lparr>heap = [7 \<mapsto> \<lparr>type = 1::nat, data = Some 3, issuer = Some 2, data_free = Some 11\<rparr>,
                 8 \<mapsto> \<lparr>type = 2, data = None, issuer = None, data_free = None\<rparr>],
          calls = [Call 10 3, Call 12 4]\<rparr> = Inr s2
        \<and> calls s2 = [Call 10 3, Call 12 4, Call 11 3] \<and> heap s2 7 = None)"
proof -
  let ?s = "\<lparr>heap = Map.empty, calls = []\<rparr> :: nat state"
  let ?s1 = "\<lparr>heap = [7 \<mapsto> \<lparr>type = 1::nat, data = Some 3, issuer = Some 2, data_free = Some 11\<rparr>],
         calls = [Call 10 3]\<rparr>"
  let ?s' = "\<lparr>heap = [7 \<mapsto> \<lparr>type = 1::nat, data = Some 3, issuer = Some 2, data_free = Some 11\<rparr>,
                 8 \<mapsto> \<lparr>type = 2, data = None, issuer = None, data_free = None\<rparr>],
          calls = [Call 10 3, Call 12 4]\<rparr>"
  have cr: "event_create (Some 7) 1 (Some 3) (Some 2) (Some 10) (Some 11) ?s = (Some 7, ?s1)"
    by (simp add: event_create_def)
  from event_lifecycle_retain_then_release [of 7 1 3 "Some 2" 10 11 ?s]
  obtain s1 where s1: "event_create (Some 7) 1 (Some 3) (Some 2) (Some 10) (Some 11) ?s = (Some 7, s1)"
    and later: "\<forall>s'. heap s' 7 = heap s1 7 \<longrightarrow>
           (\<exists>s2'. event_free (Some 7) s' = Inr s2'
              \<and> calls s2' = calls s' @ [Call 11 3] \<and> heap s2' 7 = None)"
    by blast
  from s1 cr have "s1 = ?s1" by simp
  with later have "heap ?s' 7 = heap ?s1 7 \<longrightarrow>
           (\<exists>s2'. event_free (Some 7) ?s' = Inr s2'
              \<and> calls s2' = calls ?s' @ [Call 11 3] \<and> heap s2' 7 = None)"
    by blast
  then have "\<exists>s2'. event_free (Some 7) ?s' = Inr s2'
              \<and> calls s2' = calls ?s' @ [Call 11 3] \<and> heap s2' 7 = None"
    by simp
  with cr show ?thesis by simp
qed

text \<open>
  Claim C3. When the allocation succeeds, \<^verbatim>\<open>event_create\<close> returns the new
  envelope, which stores the type, the payload, the issuer and the release hook; the
  retain hook is called on the payload, once and before the function returns, when both
  are present, and no call is made otherwise.
\<close>

theorem event_create_success:
  "\<exists>s'.
     event_create (Some p) ty dat iss data_ref dfree s = (Some p, s')
     \<and> heap s' = (heap s)(p \<mapsto> \<lparr>type = ty, data = dat, issuer = iss, data_free = dfree\<rparr>)
     \<and> calls s' = (case (dat, data_ref) of
                     (Some d, Some r) \<Rightarrow> calls s @ [Call r d]
                   | _ \<Rightarrow> calls s)"
  by (cases dat; cases data_ref) (simp_all add: event_create_def)

text \<open>
  Claim C4. With no payload no hook is called, whichever hooks were supplied:
  \<^verbatim>\<open>event_create\<close> makes no call, whether the allocation succeeds or fails;
  \<^verbatim>\<open>event_free\<close> of an envelope that holds no payload makes no call and succeeds,
  releasing the envelope only; \<^verbatim>\<open>event_free(NULL)\<close> changes nothing.
\<close>

theorem event_absent_payload_no_hook:
  "calls (snd (event_create m ty None iss data_ref dfree s)) = calls s
   \<and> event_free None s = Inr s
   \<and> (\<exists>s'. event_lifecycle m ty None iss data_ref dfree s = Inr s' \<and> calls s' = calls s)
   \<and> (heap s p = Some ev \<and> data ev = None \<longrightarrow>
        event_free (Some p) s = Inr (s\<lparr>heap := (heap s)(p := None)\<rparr>))"
  by (cases m) (simp_all add: event_create_def event_free_def event_lifecycle_def)

text \<open>
  The theorem at concrete inputs: a create with no payload and both hooks in the empty
  state, with the allocation succeeding and failing, and the free of a stored envelope
  that holds no payload.
\<close>

theorem event_absent_payload_no_hook_witness:
  "calls (snd (event_create (Some 7) (1::nat) None (Some 2) (Some 10) (Some 11)
      \<lparr>heap = Map.empty, calls = []\<rparr>)) = []
   \<and> calls (snd (event_create None (1::nat) None (Some 2) (Some 10) (Some 11)
      \<lparr>heap = Map.empty, calls = []\<rparr>)) = []
   \<and> event_free (Some 5)
        \<lparr>heap = [5 \<mapsto> \<lparr>type = 0::nat, data = None, issuer = Some 2, data_free = Some 11\<rparr>],
          calls = [Call 10 3]\<rparr>
      = Inr \<lparr>heap = Map.empty, calls = [Call 10 3]\<rparr>"
  using event_absent_payload_no_hook
    [of "Some 7" "1::nat" "Some 2" "Some 10" "Some 11" "\<lparr>heap = Map.empty, calls = []\<rparr>"]
    event_absent_payload_no_hook
    [of None "1::nat" "Some 2" "Some 10" "Some 11" "\<lparr>heap = Map.empty, calls = []\<rparr>"]
    event_absent_payload_no_hook
    [of "Some 7" "1::nat" "Some 2" "Some 10" "Some 11"
        "\<lparr>heap = [5 \<mapsto> \<lparr>type = 0::nat, data = None, issuer = Some 2, data_free = Some 11\<rparr>],
          calls = [Call 10 3]\<rparr>" 5
        "\<lparr>type = 0::nat, data = None, issuer = Some 2, data_free = Some 11\<rparr>"]
  by simp

text \<open>
  Claim C10. An envelope created with a payload, a retain hook and no release hook: the
  retain hook is called once by \<^verbatim>\<open>event_create\<close>, and \<^verbatim>\<open>event_free\<close> makes no
  call at all, so nothing balances the retain. The envelope does not keep the retain
  hook: what \<^verbatim>\<open>event_create\<close> stores is the same with and without it.
\<close>

theorem event_retain_without_release:
  "(\<exists>s1 s2.
      event_create (Some p) ty (Some d) iss (Some r) None s = (Some p, s1)
      \<and> calls s1 = calls s @ [Call r d]
      \<and> heap s1 p = Some \<lparr>type = ty, data = Some d, issuer = iss, data_free = None\<rparr>
      \<and> event_free (Some p) s1 = Inr s2
      \<and> calls s2 = calls s @ [Call r d]
      \<and> heap s2 p = None)
   \<and> heap (snd (event_create m ty dat iss data_ref dfree s))
       = heap (snd (event_create m ty dat iss None dfree s))"
  by (cases m) (simp_all add: event_create_def event_free_def)

section \<open>Properties of layers\<close>

subsection \<open>Encoding and the buffer\<close>

lemma length_encode_le: "length (encode_le w v) = w"
  by (induction w arbitrary: v) simp_all

lemma decode_encode_le: "decode_le (encode_le w v) = v mod 256 ^ w"
proof (induction w arbitrary: v)
  case 0
  show ?case by simp
next
  case (Suc w)
  have "unat (of_nat (v mod 256) :: byte) = v mod 256"
    by (simp add: unat_of_nat)
  then have "decode_le (encode_le (Suc w) v) = v mod 256 + 256 * (v div 256 mod 256 ^ w)"
    using Suc.IH [of "v div 256"] by simp
  also have "\<dots> = v mod 256 ^ Suc w"
    by (simp add: mod_mult2_eq)
  finally show ?case .
qed

lemma length_field_encode: "length (field_encode bo w v) = w"
  by (cases bo) (simp_all add: length_encode_le)

lemma field_decode_encode: "field_decode bo (field_encode bo w v) = v mod 256 ^ w"
  by (cases bo) (simp_all add: decode_encode_le)

lemma length_buffer_write:
  "length (buffer_write pos bs buf) = max (length buf) (pos + length bs)"
  by (auto simp: buffer_write_def buffer_resize_def Let_def)

lemma buffer_read_write:
  "buffer_read pos (length bs) (buffer_write pos bs buf) = Some bs"
  by (simp add: buffer_read_def length_buffer_write) (simp add: buffer_write_def buffer_resize_def Let_def)

lemma buffer_write_other:
  assumes "i < length buf" and "i < pos \<or> pos + length bs \<le> i"
  shows "buffer_write pos bs buf ! i = buf ! i"
  using assms
  by (auto simp: buffer_write_def buffer_resize_def Let_def nth_append)

lemma buffer_write_fits:
  "pos + length bs \<le> length buf \<Longrightarrow>
   buffer_write pos bs buf = take pos buf @ bs @ drop (pos + length bs) buf"
  by (simp add: buffer_write_def buffer_resize_def)

text \<open>A field written in a layer that lies inside the buffer is written in place.\<close>

lemma layer_set_field_in_place:
  assumes "segment layer + segment_size layer \<le> length buf"
  shows "length (fst (snd (layer_set_field buf layer field))) = length buf"
  using assms
  by (auto simp: layer_set_field_def length_buffer_write length_field_encode
        split: option.splits)

subsection \<open>The operations\<close>

text \<open>
  Claim C5. On a layer with a nested deeper layer, \<^verbatim>\<open>layer_write_payload\<close> fails
  and leaves the buffer and the layer as they were. On a layer with none it succeeds:
  the buffer then holds the payload's bytes at \<open>offset\<close> from the start of the payload
  region, it has grown as far as these bytes reach, its other bytes are unchanged, and
  when \<open>offset + length payload\<close> exceeds \<open>segment_size\<close> the segment has grown to
  cover the bytes written, inside the grown buffer.
\<close>

theorem layer_write_payload_copies:
  "(nested \<noteq> [] \<longrightarrow> layer_write_payload nested buf layer payload offset = (False, buf, layer))
   \<and> (\<exists>buf' layer'.
         layer_write_payload [] buf layer payload offset = (True, buf', layer')
         \<and> buffer_read (segment layer + header_size layer + offset) (length payload) buf'
             = Some payload
         \<and> length buf'
             = max (length buf) (segment layer + header_size layer + offset + length payload)
         \<and> (\<forall>i < length buf.
               i < segment layer + header_size layer + offset
               \<or> segment layer + header_size layer + offset + length payload \<le> i
               \<longrightarrow> buf' ! i = buf ! i)
         \<and> layer' = layer\<lparr>segment_size :=
               max (segment_size layer) (header_size layer + offset + length payload)\<rparr>
         \<and> (segment_size layer < offset + length payload \<longrightarrow>
               segment_size layer' = header_size layer + offset + length payload
               \<and> segment layer' + segment_size layer' \<le> length buf'))"
  by (auto simp: layer_write_payload_def buffer_read_write length_buffer_write
        buffer_write_other add.assoc)

text \<open>The theorem at a concrete input.\<close>

theorem layer_write_payload_copies_witness:
  "layer_write_payload
     [\<lparr>protocol = None, segment = 4, mask = None, header_size = 0, segment_size = 0\<rparr>]
     [1, 2, 3, 4]
     \<lparr>protocol = None, segment = 2, mask = None, header_size = 0, segment_size = 2\<rparr>
     [9, 8, 7] 1
   = (False, [1, 2, 3, 4],
      \<lparr>protocol = None, segment = 2, mask = None, header_size = 0, segment_size = 2\<rparr>)
   \<and> layer_write_payload [] [1, 2, 3, 4]
     \<lparr>protocol = None, segment = 2, mask = None, header_size = 0, segment_size = 2\<rparr>
     [9, 8, 7] 1
   = (True, [1, 2, 3, 9, 8, 7],
      \<lparr>protocol = None, segment = 2, mask = None, header_size = 0, segment_size = 4\<rparr>)"
proof -
  have "layer_write_payload [] [1, 2, 3, 4]
     \<lparr>protocol = None, segment = 2, mask = None, header_size = 0, segment_size = 2\<rparr>
     [9, 8, 7] 1
   = (True, [1, 2, 3, 9, 8, 7],
      \<lparr>protocol = None, segment = 2, mask = None, header_size = 0, segment_size = 4\<rparr>)"
    by (simp add: layer_write_payload_def buffer_write_def buffer_resize_def)
  then show ?thesis
    using layer_write_payload_copies
      [of "[\<lparr>protocol = None, segment = 4, mask = None, header_size = 0, segment_size = 0\<rparr>]"
          "[1, 2, 3, 4]"
          "\<lparr>protocol = None, segment = 2, mask = None, header_size = 0, segment_size = 2\<rparr>"
          "[9, 8, 7]" 1]
    by simp
qed

text \<open>
  Claim C6. \<^verbatim>\<open>layer_set_payload\<close> succeeds exactly on a layer with no protocol. On a
  layer with a protocol it fails and leaves the buffer and the layer unchanged. On a
  layer with no protocol the content of the payload region becomes the payload's bytes,
  which is all the layer views when its header size is 0, as in the payload layer.
\<close>

theorem layer_set_payload_valid:
  "(fst (layer_set_payload buf layer payload) \<longleftrightarrow> protocol layer = None)
   \<and> (protocol layer \<noteq> None \<longrightarrow> layer_set_payload buf layer payload = (False, buf, layer))
   \<and> (protocol layer = None \<longrightarrow>
        (\<exists>buf' layer'.
           layer_set_payload buf layer payload = (True, buf', layer')
           \<and> layer_payload buf' layer' = Some payload
           \<and> (header_size layer = 0 \<longrightarrow> layer_content buf' layer' = Some payload)))"
  using buffer_read_write [of "segment layer + header_size layer" payload buf]
  by (auto simp: layer_set_payload_def layer_payload_def layer_content_def
        split: option.splits)

text \<open>The theorem at a concrete input.\<close>

theorem layer_set_payload_valid_witness:
  "layer_set_payload [1, 2, 3, 4]
     \<lparr>protocol = Some \<lparr>protocol_name = ''udp'', protocol_header_size = 8,
         protocol_fields = [(''src_port'', 0, 2), (''dst_port'', 2, 2)],
         protocol_byte_order = Big_Endian\<rparr>,
       segment = 0, mask = None, header_size = 8, segment_size = 8\<rparr>
     [9, 8, 7]
   = (False, [1, 2, 3, 4],
      \<lparr>protocol = Some \<lparr>protocol_name = ''udp'', protocol_header_size = 8,
         protocol_fields = [(''src_port'', 0, 2), (''dst_port'', 2, 2)],
         protocol_byte_order = Big_Endian\<rparr>,
       segment = 0, mask = None, header_size = 8, segment_size = 8\<rparr>)
   \<and> fst (layer_set_payload [1, 2, 3, 4]
       \<lparr>protocol = None, segment = 2, mask = None, header_size = 0, segment_size = 2\<rparr>
       [9, 8, 7])
   \<and> layer_content
         (fst (snd (layer_set_payload [1, 2, 3, 4]
            \<lparr>protocol = None, segment = 2, mask = None, header_size = 0, segment_size = 2\<rparr>
            [9, 8, 7])))
         (snd (snd (layer_set_payload [1, 2, 3, 4]
            \<lparr>protocol = None, segment = 2, mask = None, header_size = 0, segment_size = 2\<rparr>
            [9, 8, 7])))
       = Some [9, 8, 7]"
  using layer_set_payload_valid
      [of "[1, 2, 3, 4]"
          "\<lparr>protocol = Some \<lparr>protocol_name = ''udp'', protocol_header_size = 8,
             protocol_fields = [(''src_port'', 0, 2), (''dst_port'', 2, 2)],
             protocol_byte_order = Big_Endian\<rparr>,
            segment = 0, mask = None, header_size = 8, segment_size = 8\<rparr>"
          "[9, 8, 7]"]
    layer_set_payload_valid
      [of "[1, 2, 3, 4]"
          "\<lparr>protocol = None, segment = 2, mask = None, header_size = 0, segment_size = 2\<rparr>"
          "[9, 8, 7]"]
  by auto

text \<open>
  Claim C7. \<^verbatim>\<open>layer_set_field\<close> fails exactly when the layer has no protocol, or the
  protocol does not know the field's name, or the field's byte range does not lie within
  the first \<open>segment_size\<close> bytes of the segment; and a call that fails leaves the
  buffer and the layer unchanged.
\<close>

theorem layer_set_field_failure:
  "(\<not> fst (layer_set_field buf layer field) \<longleftrightarrow>
      protocol layer = None
      \<or> (\<exists>pr. protocol layer = Some pr \<and> protocol_get_field pr (key field) = None)
      \<or> (\<exists>pr off w. protocol layer = Some pr
            \<and> protocol_get_field pr (key field) = Some (off, w)
            \<and> segment_size layer < off + w))
   \<and> (\<not> fst (layer_set_field buf layer field) \<longrightarrow>
        snd (layer_set_field buf layer field) = (buf, layer))"
  by (auto simp: layer_set_field_def split: option.splits)

text \<open>The theorem at a concrete input.\<close>

theorem layer_set_field_failure_witness:
  "layer_set_field [0, 0, 0, 0, 0, 0, 0, 0, 0, 0]
     \<lparr>protocol = Some \<lparr>protocol_name = ''ipv4'', protocol_header_size = 20,
         protocol_fields = [(''length'', 2, 2), (''ttl'', 8, 1)],
         protocol_byte_order = Big_Endian\<rparr>,
       segment = 0, mask = None, header_size = 8, segment_size = 8\<rparr>
     \<lparr>key = ''ttl'', val = 64\<rparr>
   = (False, [0, 0, 0, 0, 0, 0, 0, 0, 0, 0],
     \<lparr>protocol = Some \<lparr>protocol_name = ''ipv4'', protocol_header_size = 20,
         protocol_fields = [(''length'', 2, 2), (''ttl'', 8, 1)],
         protocol_byte_order = Big_Endian\<rparr>,
       segment = 0, mask = None, header_size = 8, segment_size = 8\<rparr>)
   \<and> fst (layer_set_field [0, 0, 0, 0, 0, 0, 0, 0, 0, 0]
     \<lparr>protocol = Some \<lparr>protocol_name = ''ipv4'', protocol_header_size = 20,
         protocol_fields = [(''length'', 2, 2), (''ttl'', 8, 1)],
         protocol_byte_order = Big_Endian\<rparr>,
       segment = 0, mask = None, header_size = 8, segment_size = 8\<rparr>
     \<lparr>key = ''length'', val = 64\<rparr>)"
proof -
  let ?pr = "\<lparr>protocol_name = ''ipv4'', protocol_header_size = 20,
         protocol_fields = [(''length'', 2, 2), (''ttl'', 8, 1)],
         protocol_byte_order = Big_Endian\<rparr>"
  let ?l = "\<lparr>protocol = Some ?pr, segment = 0, mask = None, header_size = 8, segment_size = 8\<rparr>"
  let ?buf = "[0, 0, 0, 0, 0, 0, 0, 0, 0, 0] :: buffer_t"
  have ttl: "protocol_get_field ?pr ''ttl'' = Some (8, 1)"
    and len: "protocol_get_field ?pr ''length'' = Some (2, 2)"
    by (simp_all add: protocol_get_field_def)
  have "\<not> fst (layer_set_field ?buf ?l \<lparr>key = ''ttl'', val = 64\<rparr>)"
    using layer_set_field_failure [of ?buf ?l "\<lparr>key = ''ttl'', val = 64\<rparr>"] ttl
    by simp
  then have "layer_set_field ?buf ?l \<lparr>key = ''ttl'', val = 64\<rparr> = (False, ?buf, ?l)"
    using layer_set_field_failure [of ?buf ?l "\<lparr>key = ''ttl'', val = 64\<rparr>"]
    by (simp add: prod_eq_iff)
  moreover have "fst (layer_set_field ?buf ?l \<lparr>key = ''length'', val = 64\<rparr>)"
    using layer_set_field_failure [of ?buf ?l "\<lparr>key = ''length'', val = 64\<rparr>"] len
    by simp
  ultimately show ?thesis by simp
qed

text \<open>
  Claim C8. After a successful \<^verbatim>\<open>layer_set_field\<close> of a field whose value fits the
  width the protocol declares for it, \<^verbatim>\<open>layer_create_field\<close> for the same name
  returns the field that was written.
\<close>

theorem layer_set_field_create_field:
  assumes "layer_set_field buf layer field = (True, buf', layer')"
    and "protocol layer = Some pr"
    and "protocol_get_field pr (key field) = Some (off, w)"
    and "val field < 256 ^ w"
  shows "layer_create_field buf' layer' (key field) = Some field"
proof -
  let ?bs = "field_encode (protocol_byte_order pr) w (val field)"
  from assms(1-3) have buf': "buf' = buffer_write (segment layer + off) ?bs buf"
    and layer': "layer' = layer"
    by (auto simp: layer_set_field_def split: if_splits)
  have "buffer_read (segment layer + off) w buf' = Some ?bs"
    using buffer_read_write [of "segment layer + off" ?bs buf]
    by (simp add: buf' length_field_encode)
  moreover have "field_decode (protocol_byte_order pr) ?bs = val field"
    using assms(4) by (simp add: field_decode_encode)
  ultimately show ?thesis
    using assms(2,3) by (simp add: layer_create_field_def layer')
qed

text \<open>The theorem at a concrete input.\<close>

theorem layer_set_field_create_field_witness:
  "layer_set_field [0, 0, 0, 0, 0, 0]
     \<lparr>protocol = Some \<lparr>protocol_name = ''udp'', protocol_header_size = 8,
         protocol_fields = [(''src_port'', 0, 2), (''dst_port'', 2, 2)],
         protocol_byte_order = Big_Endian\<rparr>,
       segment = 1, mask = None, header_size = 4, segment_size = 4\<rparr>
     \<lparr>key = ''dst_port'', val = 33434\<rparr>
   = (True, [0, 0, 0, 130, 154, 0],
     \<lparr>protocol = Some \<lparr>protocol_name = ''udp'', protocol_header_size = 8,
         protocol_fields = [(''src_port'', 0, 2), (''dst_port'', 2, 2)],
         protocol_byte_order = Big_Endian\<rparr>,
       segment = 1, mask = None, header_size = 4, segment_size = 4\<rparr>)
   \<and> layer_create_field [0, 0, 0, 130, 154, 0]
     \<lparr>protocol = Some \<lparr>protocol_name = ''udp'', protocol_header_size = 8,
         protocol_fields = [(''src_port'', 0, 2), (''dst_port'', 2, 2)],
         protocol_byte_order = Big_Endian\<rparr>,
       segment = 1, mask = None, header_size = 4, segment_size = 4\<rparr>
     ''dst_port''
   = Some \<lparr>key = ''dst_port'', val = 33434\<rparr>"
proof -
  let ?pr = "\<lparr>protocol_name = ''udp'', protocol_header_size = 8,
         protocol_fields = [(''src_port'', 0, 2), (''dst_port'', 2, 2)],
         protocol_byte_order = Big_Endian\<rparr>"
  let ?l = "\<lparr>protocol = Some ?pr, segment = 1, mask = None, header_size = 4, segment_size = 4\<rparr>"
  let ?f = "\<lparr>key = ''dst_port'', val = 33434\<rparr>"
  have rng: "protocol_get_field ?pr (key ?f) = Some (2, 2)"
    by (simp add: protocol_get_field_def)
  have enc: "encode_le 2 33434 = [154, 130]"
    by (simp add: numeral_2_eq_2)
  have set: "layer_set_field [0, 0, 0, 0, 0, 0] ?l ?f = (True, [0, 0, 0, 130, 154, 0], ?l)"
    using rng by (simp add: layer_set_field_def buffer_write_def buffer_resize_def enc)
  have fits: "val ?f < 256 ^ 2"
    by simp
  have "layer_create_field [0, 0, 0, 130, 154, 0] ?l (key ?f) = Some ?f"
    using layer_set_field_create_field [OF set _ rng fits] by simp
  with set show ?thesis by simp
qed

text \<open>
  Claim C9, as amended. \<open>header_size \<le> segment_size\<close> holds in a new layer and is
  preserved by \<^verbatim>\<open>layer_set_protocol\<close>, \<^verbatim>\<open>layer_set_segment\<close>,
  \<^verbatim>\<open>layer_set_field\<close>, \<^verbatim>\<open>layer_set_payload\<close> and \<^verbatim>\<open>layer_write_payload\<close>. The
  setters of the two sizes validate nothing: after \<^verbatim>\<open>layer_set_header_size\<close> it
  holds exactly when the new header size is at most the segment size, and after
  \<^verbatim>\<open>layer_set_segment_size\<close> exactly when the new segment size is at least the header
  size.
\<close>

theorem layer_inv_preserved:
  "layer_inv layer_create
   \<and> (layer_inv layer \<longrightarrow>
        layer_inv (layer_set_protocol layer pr)
        \<and> layer_inv (layer_set_segment layer seg)
        \<and> layer_inv (snd (snd (layer_set_field buf layer field)))
        \<and> layer_inv (snd (snd (layer_set_payload buf layer payload)))
        \<and> layer_inv (snd (snd (layer_write_payload nested buf layer payload offset))))
   \<and> (layer_inv (layer_set_header_size layer h) \<longleftrightarrow> h \<le> segment_size layer)
   \<and> (layer_inv (layer_set_segment_size layer n) \<longleftrightarrow> header_size layer \<le> n)"
  by (auto simp: layer_inv_def layer_create_def layer_set_protocol_def layer_set_segment_def
        layer_set_field_def layer_set_payload_def layer_write_payload_def
        layer_set_header_size_def layer_set_segment_size_def
        split: option.splits)

text \<open>The theorem at a concrete input.\<close>

theorem layer_inv_preserved_witness:
  "layer_inv (layer_set_protocol
      \<lparr>protocol = None, segment = 2, mask = None, header_size = 0, segment_size = 2\<rparr> None)
   \<and> layer_inv (snd (snd (layer_write_payload [] [1, 2, 3, 4]
      \<lparr>protocol = None, segment = 2, mask = None, header_size = 0, segment_size = 2\<rparr>
      [9, 8, 7] 1)))
   \<and> layer_inv (layer_set_header_size
      \<lparr>protocol = None, segment = 2, mask = None, header_size = 0, segment_size = 2\<rparr> 2)
   \<and> \<not> layer_inv (layer_set_header_size
      \<lparr>protocol = None, segment = 2, mask = None, header_size = 0, segment_size = 2\<rparr> 3)"
proof -
  let ?l = "\<lparr>protocol = None, segment = 2, mask = None, header_size = 0, segment_size = 2\<rparr>"
  have "layer_inv ?l"
    by (simp add: layer_inv_def)
  then show ?thesis
    using layer_inv_preserved [of ?l None 0 "[]" "\<lparr>key = [], val = 0\<rparr>" "[9, 8, 7]" "[]" 1 2 0]
      layer_inv_preserved [of ?l None 0 "[1, 2, 3, 4]" "\<lparr>key = [], val = 0\<rparr>" "[9, 8, 7]" "[]" 1 3 0]
    by simp
qed

text \<open>
  The claim as it was stated fails: the invariant holds in a new layer, and setting the
  header size of that layer to 1 breaks it.
\<close>

theorem layer_inv_setter_counterexample:
  "layer_inv layer_create \<and> \<not> layer_inv (layer_set_header_size layer_create 1)"
  by (simp add: layer_inv_def layer_create_def layer_set_header_size_def)

end
